theory Spec2Isabelle
  imports Complex_Main "HOL-Library.Multiset"
begin

section \<open>Data model of \<open>src/App.tsx\<close>\<close>

text \<open>
  The TypeScript interfaces become records. A JavaScript string is modelled as a
  \<open>string\<close> (a list of characters); only equality, emptiness, length and the
  ASCII characters comma, double quote, slash and line feed are ever inspected by the code
  modelled here. Field names that clash between interfaces (\<open>id\<close>, \<open>text\<close>, \<open>timestamp\<close>)
  carry the interface as a prefix.
\<close>

text \<open>
  A coordinate is a finite number: the geolocation interface delivers latitude and
  longitude as doubles that are neither NaN nor infinite, and the JSON the remote is
  written and read with holds no other number.
\<close>

record Location =
  lat :: real
  lng :: real

record Comment =
  comment_id :: string
  adminId :: string
  adminName :: string
  comment_text :: string
  timestamp :: string

record EditHistory =
  edit_id :: string
  editorId :: string
  editorName :: string
  action :: string
  edit_timestamp :: string

record AttendanceRecord =
  record_id :: string
  userId :: string
  userName :: string
  date :: string
  time :: string
  position :: string
  photo :: string
  description :: string
  location :: Location
  comments :: "Comment list"
  editHistory :: "EditHistory list"

datatype Role = member | admin

record UserT =
  nip :: string
  name :: string
  password :: string
  role :: Role


section \<open>Helpers\<close>

subsection \<open>Strings and numbers of the language\<close>

definition dq :: char where
  "dq = CHR 0x22"

definition lf :: char where
  "lf = CHR 0x0A"

definition digit_chars :: string where
  "digit_chars = ''0123456789''"

text \<open>\<open>Number.prototype.toString\<close> on an integer value: its decimal digits.\<close>

fun nat_toString :: "nat \<Rightarrow> string" where
  "nat_toString n =
     (if n < 10 then [digit_chars ! n]
      else nat_toString (n div 10) @ [digit_chars ! (n mod 10)])"

declare nat_toString.simps [simp del]


text \<open>\<open>String.prototype.charAt\<close>: the empty string outside the string.\<close>

definition charAt :: "string \<Rightarrow> int \<Rightarrow> string" where
  "charAt s i = (if 0 \<le> i \<and> i < int (length s) then [s ! nat i] else [])"

text \<open>
  \<open>String.prototype.split\<close> with a one-character separator: always at least one
  piece; \<open>n\<close> separators give \<open>n + 1\<close> pieces.
\<close>

fun split :: "char \<Rightarrow> string \<Rightarrow> string list" where
  "split sep [] = [[]]"
| "split sep (c # cs) =
     (if c = sep then [] # split sep cs
      else (case split sep cs of
              [] \<Rightarrow> [[c]]
            | w # ws \<Rightarrow> (c # w) # ws))"

text \<open>\<open>Array.prototype.join\<close>\<close>

fun join :: "string \<Rightarrow> string list \<Rightarrow> string" where
  "join sep [] = []"
| "join sep [x] = x"
| "join sep (x # y # ys) = x @ sep @ join sep (y # ys)"

text \<open>
  \<open>String.prototype.trim\<close> removes white space and line terminators at both ends; of
  the characters a \<open>char\<close> can hold these are TAB, LF, VT, FF, CR, SPACE and NBSP.
\<close>

definition is_space :: "char \<Rightarrow> bool" where
  "is_space c = (c \<in> set [CHR 0x09, CHR 0x0A, CHR 0x0B, CHR 0x0C, CHR 0x0D, CHR 0x20, CHR 0xA0])"

definition trim :: "string \<Rightarrow> string" where
  "trim s = rev (dropWhile is_space (rev (dropWhile is_space s)))"

text \<open>
  \<open>String.prototype.toLowerCase\<close>, on the letters A to Z; the only use in the code
  compares the result with \<open>'admin'\<close>, and no other character is lowered to one of
  its letters.
\<close>

definition lower_char :: "char \<Rightarrow> char" where
  "lower_char c =
     (case map_of (zip ''ABCDEFGHIJKLMNOPQRSTUVWXYZ'' ''abcdefghijklmnopqrstuvwxyz'') c of
        Some l \<Rightarrow> l
      | None \<Rightarrow> c)"

definition toLowerCase :: "string \<Rightarrow> string" where
  "toLowerCase s = map lower_char s"

subsection \<open>generatePassword\<close>

text \<open>
  \<open>Math.random()\<close> returns a number in \<open>[0, 1)\<close>. The sequence of numbers it
  returns is the parameter \<open>random\<close>; \<open>k\<close> counts the calls made so far, so the
  six calls of one \<open>generatePassword()\<close> read \<open>random k, \<dots>, random (k + 5)\<close>.
\<close>

definition chars :: string where
  "chars = ''abcdefghijklmnopqrstuvwxyz0123456789''"

function password_loop :: "(nat \<Rightarrow> real) \<Rightarrow> nat \<Rightarrow> nat \<Rightarrow> string \<Rightarrow> string" where
  "password_loop random k i pw =
     (if i < 6
      then password_loop random k (i + 1)
             (pw @ charAt chars \<lfloor>random (k + i) * real (length chars)\<rfloor>)
      else pw)"
  by pat_completeness auto
termination
  by (relation "measure (\<lambda>(random, k, i, pw). 6 - i)") auto

declare password_loop.simps [simp del]

definition generatePassword :: "(nat \<Rightarrow> real) \<Rightarrow> nat \<Rightarrow> string" where
  "generatePassword random k = password_loop random k 0 []"

section \<open>DatabaseHelper\<close>

text \<open>
  The remote store is three tables. What the source receives from a call is a pair
  \<open>{ data, error }\<close>; the \<open>error\<close> of each call is the parameter \<open>err\<close> of the
  helper making it (\<open>None\<close>: the call succeeded and the table is read or changed,
  \<open>Some message\<close>: it failed and the table is as before). The columns \<open>id\<close> and
  \<open>created_at\<close> of \<open>attendances\<close> are filled by the store: the \<open>id\<close> it gives a
  new row is the parameter \<open>new_id\<close>, and the table is kept newest row first, which is
  the order \<open>.order('created_at', { ascending: false })\<close> asks for. A column the source
  reads and never writes (\<open>photo_url\<close>) or may find empty (\<open>comments\<close>) is optional.
\<close>

record AttendanceRow =
  row_id :: string
  user_id :: string
  user_name :: string
  row_date :: string
  row_time :: string
  row_position :: string
  photo_url :: "string option"
  row_photo :: string
  row_description :: string
  location_lat :: real
  location_lng :: real
  row_comments :: "Comment list option"

record DailyTokenRow =
  token_date :: string
  code :: string

record Database =
  tbl_users :: "UserT list"
  tbl_attendances :: "AttendanceRow list"
  tbl_daily_token :: "DailyTokenRow list"

definition getUsers :: "string option \<Rightarrow> Database \<Rightarrow> UserT list" where
  "getUsers err db = (case err of Some m \<Rightarrow> [] | None \<Rightarrow> tbl_users db)"

definition addUser :: "string option \<Rightarrow> UserT \<Rightarrow> Database \<Rightarrow> string + Database" where
  "addUser err user db =
     (case err of
        Some m \<Rightarrow> Inl m
      | None \<Rightarrow> Inr (db\<lparr>tbl_users := tbl_users db @ [user]\<rparr>))"

definition updateUserPassword ::
  "string option \<Rightarrow> string \<Rightarrow> string \<Rightarrow> Database \<Rightarrow> string + Database" where
  "updateUserPassword err nip' newPass db =
     (case err of
        Some m \<Rightarrow> Inl m
      | None \<Rightarrow>
          Inr (db\<lparr>tbl_users :=
                 map (\<lambda>u. if nip u = nip' then u\<lparr>password := newPass\<rparr> else u) (tbl_users db)\<rparr>))"

text \<open>\<open>a || b\<close> on strings that may be missing: the first one that is present and not empty.\<close>

definition or_else :: "string option \<Rightarrow> string \<Rightarrow> string" where
  "or_else a b = (case a of None \<Rightarrow> b | Some s \<Rightarrow> if s = [] then b else s)"

definition to_record :: "AttendanceRow \<Rightarrow> AttendanceRecord" where
  "to_record item =
     \<lparr>record_id = row_id item,
      userId = user_id item,
      userName = user_name item,
      date = row_date item,
      time = row_time item,
      position = row_position item,
      photo = or_else (photo_url item) (row_photo item),
      description = row_description item,
      location = \<lparr>lat = location_lat item, lng = location_lng item\<rparr>,
      comments = (case row_comments item of None \<Rightarrow> [] | Some cs \<Rightarrow> cs),
      editHistory = []\<rparr>"

definition getAttendances :: "string option \<Rightarrow> Database \<Rightarrow> AttendanceRecord list" where
  "getAttendances err db =
     (case err of Some m \<Rightarrow> [] | None \<Rightarrow> map to_record (tbl_attendances db))"

definition addAttendance ::
  "string option \<Rightarrow> string \<Rightarrow> AttendanceRecord \<Rightarrow> Database \<Rightarrow> string + Database" where
  "addAttendance err new_id r db =
     (case err of
        Some m \<Rightarrow> Inl m
      | None \<Rightarrow>
          Inr (db\<lparr>tbl_attendances :=
                 \<lparr>row_id = new_id,
                  user_id = userId r,
                  user_name = userName r,
                  row_date = date r,
                  row_time = time r,
                  row_position = position r,
                  photo_url = None,
                  row_photo = photo r,
                  row_description = description r,
                  location_lat = lat (location r),
                  location_lng = lng (location r),
                  row_comments = Some (comments r)\<rparr> # tbl_attendances db\<rparr>))"

definition addComment ::
  "string option \<Rightarrow> string \<Rightarrow> Comment list \<Rightarrow> Database \<Rightarrow> string + Database" where
  "addComment err recordId cs db =
     (case err of
        Some m \<Rightarrow> Inl m
      | None \<Rightarrow>
          Inr (db\<lparr>tbl_attendances :=
                 map (\<lambda>item. if row_id item = recordId then item\<lparr>row_comments := Some cs\<rparr> else item)
                   (tbl_attendances db)\<rparr>))"



section \<open>Application state\<close>

text \<open>
  \<open>AttendanceSystem\<close> holds the remote's rows as it last fetched them
  (\<open>users\<close>, \<open>attendances\<close>); the components read these copies, not the remote.
  \<open>fetchData\<close> replaces both copies; the two helpers it calls return an empty list
  when the remote fails and never throw, so its \<open>catch\<close> is not reached.
\<close>

record App =
  remote :: Database
  st_users :: "UserT list"
  st_attendances :: "AttendanceRecord list"

definition fetchData :: "string option \<Rightarrow> string option \<Rightarrow> App \<Rightarrow> App" where
  "fetchData users_err att_err app =
     app\<lparr>st_users := getUsers users_err (remote app),
         st_attendances := getAttendances att_err (remote app)\<rparr>"

section \<open>ChangePasswordPage\<close>

text \<open>
  \<open>handleSubmit\<close>: \<open>Inl message\<close> is \<open>setError(message)\<close>, \<open>Inr newPass\<close>
  is \<open>onSuccess(newPass)\<close>. \<open>user\<close> is the component's \<open>user\<close> property.
\<close>

definition handleSubmit ::
  "UserT \<Rightarrow> string \<Rightarrow> string \<Rightarrow> string \<Rightarrow> string option \<Rightarrow> Database
     \<Rightarrow> (string + string) \<times> Database" where
  "handleSubmit user oldPass newPass confirmPass err db =
     (if oldPass = [] \<or> newPass = [] \<or> confirmPass = [] then
        (Inl ''Semua field harus diisi.'', db)
      else if oldPass \<noteq> password user then
        (Inl ''Password lama salah.'', db)
      else if newPass \<noteq> confirmPass then
        (Inl ''Konfirmasi password baru tidak cocok.'', db)
      else if length newPass < 4 then
        (Inl ''Password minimal 4 karakter.'', db)
      else
        (case updateUserPassword err (nip user) newPass db of
           Inr db' \<Rightarrow> (Inr newPass, db')
         | Inl m \<Rightarrow> (Inl (''Gagal mengubah password: '' @ m), db)))"

section \<open>AttendanceForm\<close>

text \<open>
  \<open>submit\<close>: \<open>today\<close> and \<open>now\<close> are \<open>new Date().toLocaleDateString('id-ID')\<close>
  and \<open>new Date().toLocaleTimeString('id-ID')\<close>; \<open>geo\<close> is what
  \<open>getCurrentPosition\<close> calls back with: \<open>Some (latitude, longitude)\<close> for the success
  callback, \<open>None\<close> for the error callback. The result is the text of the one
  \<open>alert\<close> and the remote afterwards.
\<close>

definition submit ::
  "UserT \<Rightarrow> string \<Rightarrow> string \<Rightarrow> string \<Rightarrow> string \<Rightarrow> string \<Rightarrow> (real \<times> real) option
     \<Rightarrow> string option \<Rightarrow> string \<Rightarrow> Database \<Rightarrow> string \<times> Database" where
  "submit user position' desc photo' today now geo err new_id db =
     (if position' = [] \<or> desc = [] \<or> photo' = [] then (''Mohon lengkapi data!'', db)
      else
        (case geo of
           None \<Rightarrow> (''Gagal mendapatkan lokasi GPS.'', db)
         | Some (latitude, longitude) \<Rightarrow>
             (case addAttendance err new_id
                     \<lparr>record_id = [],
                      userId = nip user,
                      userName = name user,
                      date = today,
                      time = now,
                      position = position',
                      photo = photo',
                      description = desc,
                      location = \<lparr>lat = latitude, lng = longitude\<rparr>,
                      comments = [],
                      editHistory = []\<rparr> db of
                Inr db' \<Rightarrow> (''Absensi Berhasil Terkirim!'', db')
              | Inl m \<Rightarrow> (''Gagal mengirim absensi. Cek koneksi.'', db))))"

section \<open>DailyReportView: grouping by date\<close>

text \<open>
  \<open>Array.from(new Set(xs))\<close>: a \<open>Set\<close> keeps its elements in insertion order
  and ignores an element already present, so the result lists every value once, at the
  place of its first occurrence. \<open>set_add_all seen xs\<close> is the content of the set after
  adding \<open>xs\<close> to a set whose content is \<open>seen\<close>.
\<close>

fun set_add_all :: "'a list \<Rightarrow> 'a list \<Rightarrow> 'a list" where
  "set_add_all seen [] = seen"
| "set_add_all seen (x # xs) =
     set_add_all (if x \<in> set seen then seen else seen @ [x]) xs"

definition array_from_set :: "'a list \<Rightarrow> 'a list" where
  "array_from_set xs = set_add_all [] xs"

text \<open>\<open>const uniqueDates = Array.from(new Set(attendances.map(a => a.date)))\<close>\<close>

definition uniqueDates :: "AttendanceRecord list \<Rightarrow> string list" where
  "uniqueDates attendances = array_from_set (map date attendances)"

text \<open>\<open>const dayRecords = attendances.filter(a => a.date === selectedDate)\<close>\<close>

definition dayRecords :: "AttendanceRecord list \<Rightarrow> string \<Rightarrow> AttendanceRecord list" where
  "dayRecords attendances selectedDate = filter (\<lambda>a. date a = selectedDate) attendances"

text \<open>
  The number shown on a date card:
  \<open>const count = attendances.filter(a => a.date === date).length\<close>
\<close>

definition dateCount :: "AttendanceRecord list \<Rightarrow> string \<Rightarrow> nat" where
  "dateCount attendances d = length (filter (\<lambda>a. date a = d) attendances)"

section \<open>DailyReportView: audit comments\<close>

text \<open>
  \<open>handleAudit\<close> reads the record from the component's \<open>attendances\<close> property
  (\<open>st_attendances\<close>). \<open>now\<close> is \<open>Date.now().toString()\<close>, \<open>ts\<close> is
  \<open>new Date().toLocaleString()\<close>, \<open>err\<close> the error of the update and
  \<open>onRefresh\<close> the property of that name. The result is the list of \<open>alert\<close>
  texts shown and the application afterwards; \<open>return\<close> without a record shows nothing.
\<close>

definition handleAudit ::
  "UserT \<Rightarrow> (App \<Rightarrow> App) \<Rightarrow> string \<Rightarrow> string \<Rightarrow> string option \<Rightarrow> string \<Rightarrow> string \<Rightarrow> App
     \<Rightarrow> string list \<times> App" where
  "handleAudit adminUser onRefresh now ts err recordId text' app =
     (case find (\<lambda>a. record_id a = recordId) (st_attendances app) of
        None \<Rightarrow> ([], app)
      | Some r \<Rightarrow>
          (let newComment =
                 \<lparr>comment_id = now,
                  adminId = nip adminUser,
                  adminName = name adminUser,
                  comment_text = text',
                  timestamp = ts\<rparr>;
               updatedComments = comments r @ [newComment]
           in case addComment err recordId updatedComments (remote app) of
                Inr db' \<Rightarrow> ([''Komentar terkirim.''], onRefresh (app\<lparr>remote := db'\<rparr>))
              | Inl m \<Rightarrow> ([''Gagal mengirim komentar.''], app)))"

text \<open>
  The button beside \<open>commentInput\<close>:
  \<open>if(input.value) { handleAudit(selectedRecord.id, input.value); input.value = ''; }\<close>
\<close>

definition commentButton ::
  "UserT \<Rightarrow> (App \<Rightarrow> App) \<Rightarrow> string \<Rightarrow> string \<Rightarrow> string option \<Rightarrow> string \<Rightarrow> string \<Rightarrow> App
     \<Rightarrow> string list \<times> App" where
  "commentButton adminUser onRefresh now ts err selectedId input_value app =
     (if input_value \<noteq> [] then handleAudit adminUser onRefresh now ts err selectedId input_value app
      else ([], app))"

text \<open>
  What is typed and read for one comment: the admin, the values of
  \<open>Date.now().toString()\<close> and \<open>new Date().toLocaleString()\<close>, and the text.
\<close>

type_synonym audit_input = "UserT \<times> string \<times> string \<times> string"


text \<open>The comments the remote holds for a record: those of the first row with its id.\<close>

definition stored_comments :: "Database \<Rightarrow> string \<Rightarrow> Comment list option" where
  "stored_comments db recordId =
     map_option comments (find (\<lambda>a. record_id a = recordId) (getAttendances None db))"



section \<open>DailyReportView: CSV export\<close>

text \<open>
  \<open>handleDownloadCSV\<close>. The conversion of a number to a string in a template literal and
  \<open>encodeURI\<close> are the language's; they are the parameters \<open>numToString\<close> and
  \<open>encodeURI\<close>. \<open>[headers, ...rows].join("\n")\<close> converts the one-element array
  \<open>headers\<close> to its element.
\<close>

definition headers :: "string list" where
  "headers = [''NIP,Nama,Tanggal,Jam,Jabatan,Keterangan,Lokasi'']"

definition csv_row :: "(real \<Rightarrow> string) \<Rightarrow> AttendanceRecord \<Rightarrow> string" where
  "csv_row numToString d =
     userId d @ '','' @ [dq] @ userName d @ [dq] @ '','' @ date d @ '','' @ time d @ '',''
     @ [dq] @ position d @ [dq] @ '','' @ [dq] @ description d @ [dq] @ '',''
     @ [dq] @ numToString (lat (location d)) @ '', '' @ numToString (lng (location d)) @ [dq]"

definition csv_document :: "(real \<Rightarrow> string) \<Rightarrow> AttendanceRecord list \<Rightarrow> string" where
  "csv_document numToString data = join [lf] (headers @ map (csv_row numToString) data)"

definition replace_slashes :: "string \<Rightarrow> string" where
  "replace_slashes s = map (\<lambda>c. if c = CHR ''/'' then CHR ''-'' else c) s"

record Download =
  href :: string
  download :: string

definition handleDownloadCSV ::
  "(real \<Rightarrow> string) \<Rightarrow> (string \<Rightarrow> string) \<Rightarrow> string \<Rightarrow> AttendanceRecord list \<Rightarrow> Download" where
  "handleDownloadCSV numToString encodeURI date' data =
     (let csvContent = ''data:text/csv;charset=utf-8,'' @ csv_document numToString data;
          encodedUri = encodeURI csvContent
      in \<lparr>href = encodedUri, download = ''Absensi_'' @ replace_slashes date' @ ''.csv''\<rparr>)"

subsection \<open>The reader of the CSV format\<close>

text \<open>
  The quoting rules of the target format (RFC 4180), as a reader: fields are separated by
  commas and records by line feeds; a field that starts with a double quote runs to the
  next double quote that is not doubled, a doubled one standing for one double quote, and
  may hold commas and line feeds; after the closing quote only a comma, a line feed or
  the end may follow; a double quote may not stand in a field that does not start with
  one. \<open>None\<close>: the text does not follow the rules. This is the yardstick the export is
  measured with, not code of the repository.
\<close>

datatype csv_state = FieldStart | Unquoted | Quoted | QuoteSeen

fun csv_read ::
  "csv_state \<Rightarrow> string \<Rightarrow> string list \<Rightarrow> string list list \<Rightarrow> string \<Rightarrow> string list list option" where
  "csv_read st field row rows [] =
     (if st = Quoted then None else Some (rows @ [row @ [field]]))"
| "csv_read st field row rows (c # cs) =
     (if st = Quoted then
        (if c = dq then csv_read QuoteSeen field row rows cs
         else csv_read Quoted (field @ [c]) row rows cs)
      else if c = CHR '','' then csv_read FieldStart [] (row @ [field]) rows cs
      else if c = lf then csv_read FieldStart [] [] (rows @ [row @ [field]]) cs
      else if st = QuoteSeen then
        (if c = dq then csv_read Quoted (field @ [dq]) row rows cs else None)
      else if c = dq then
        (if st = FieldStart then csv_read Quoted [] row rows cs else None)
      else csv_read Unquoted (field @ [c]) row rows cs)"

definition rfc4180_rows :: "string \<Rightarrow> string list list option" where
  "rfc4180_rows doc = csv_read FieldStart [] [] [] doc"

section \<open>UserManagementView: import\<close>

text \<open>
  \<open>handleImport\<close>, the \<open>onload\<close> handler: \<open>lines\<close> is \<open>text.split('\n')\<close>,
  \<open>cnt\<close> the counter \<open>count\<close> of the source, \<open>k\<close> the number of
  \<open>Math.random()\<close> calls made so far, and \<open>resp user db\<close> the error of the
  \<open>addUser\<close> call for \<open>user\<close> on the remote \<open>db\<close> (a duplicate \<open>nip\<close>, for
  instance). The password is generated while the argument of \<open>addUser\<close> is built, so
  also when the call then fails; \<open>catch {}\<close> drops the failure. \<open>row[2]?.trim()\<close> is
  undefined, and so not \<open>'admin'\<close>, when the row has no third field.
\<close>

definition user_of_row :: "string list \<Rightarrow> string \<Rightarrow> UserT" where
  "user_of_row row pw =
     \<lparr>nip = trim (row ! 0),
      name = trim (row ! 1),
      password = pw,
      role = (if 2 < length row \<and> toLowerCase (trim (row ! 2)) = ''admin'' then admin else member)\<rparr>"

function import_loop ::
  "string list \<Rightarrow> (nat \<Rightarrow> real) \<Rightarrow> (UserT \<Rightarrow> Database \<Rightarrow> string option) \<Rightarrow> nat \<Rightarrow> nat \<Rightarrow> nat
     \<Rightarrow> Database \<Rightarrow> nat \<times> nat \<times> Database" where
  "import_loop lines random resp i cnt k db =
     (if i < length lines then
        (let row = split (CHR '','') (lines ! i) in
         if 2 \<le> length row then
           (let user = user_of_row row (generatePassword random k) in
            case addUser (resp user db) user db of
              Inr db' \<Rightarrow> import_loop lines random resp (i + 1) (cnt + 1) (k + 6) db'
            | Inl m \<Rightarrow> import_loop lines random resp (i + 1) cnt (k + 6) db)
         else import_loop lines random resp (i + 1) cnt k db)
      else (cnt, k, db))"
  by pat_completeness auto
termination
  by (relation "measure (\<lambda>(lines, random, resp, i, cnt, k, db). length lines - i)") auto

declare import_loop.simps [simp del]

text \<open>
  The result: the text of the \<open>alert\<close> (with the source's \<open>count\<close>), the number of
  \<open>Math.random()\<close> calls made, and the remote afterwards.
\<close>

definition handleImport ::
  "string \<Rightarrow> (nat \<Rightarrow> real) \<Rightarrow> (UserT \<Rightarrow> Database \<Rightarrow> string option) \<Rightarrow> nat \<Rightarrow> Database
     \<Rightarrow> string \<times> nat \<times> Database" where
  "handleImport text' random resp k db =
     (let lines = split lf text' in
      case import_loop lines random resp 1 0 k db of
        (cnt, k', db') \<Rightarrow> (''Berhasil import '' @ nat_toString cnt @ '' user.'', k', db'))"

text \<open>
  The loop seen from the lines still to be read: the lines from index \<open>i\<close> on. It
  is shown below to compute what \<open>import_loop\<close> computes.
\<close>

fun import_lines ::
  "(nat \<Rightarrow> real) \<Rightarrow> (UserT \<Rightarrow> Database \<Rightarrow> string option) \<Rightarrow> string list \<Rightarrow> nat \<Rightarrow> nat
     \<Rightarrow> Database \<Rightarrow> nat \<times> nat \<times> Database" where
  "import_lines random resp [] cnt k db = (cnt, k, db)"
| "import_lines random resp (l # ls) cnt k db =
     (let row = split (CHR '','') l in
      if 2 \<le> length row then
        (let user = user_of_row row (generatePassword random k) in
         case addUser (resp user db) user db of
           Inr db' \<Rightarrow> import_lines random resp ls (cnt + 1) (k + 6) db'
         | Inl m \<Rightarrow> import_lines random resp ls cnt (k + 6) db)
      else import_lines random resp ls cnt k db)"

section \<open>Predicates used in the statements\<close>

text \<open>
  A daily code as the claims describe it: four characters, all of them decimal digits,
  reading as a number from 1000 to 9999.
\<close>

definition digit_value :: "char \<Rightarrow> nat" where
  "digit_value c = of_char c - 48"

definition decimal_value :: "string \<Rightarrow> nat" where
  "decimal_value s = foldl (\<lambda>a c. 10 * a + digit_value c) 0 s"

definition is_token_code :: "string \<Rightarrow> bool" where
  "is_token_code c =
     (length c = 4 \<and> list_all (\<lambda>ch. ch \<in> set digit_chars) c \<and>
      1000 \<le> decimal_value c \<and> decimal_value c \<le> 9999)"

text \<open>
  The state of \<open>daily_token\<close> that \<open>getDailyToken\<close> keeps: at most one row for a
  date, every code a daily code.
\<close>

definition token_table_ok :: "Database \<Rightarrow> bool" where
  "token_table_ok db =
     (distinct (map token_date (tbl_daily_token db)) \<and>
      list_all (\<lambda>t. is_token_code (code t)) (tbl_daily_token db))"


text \<open>The password the remote holds for a user: that of the first row with the \<open>nip\<close>.\<close>

definition stored_password :: "Database \<Rightarrow> string \<Rightarrow> string option" where
  "stored_password db nip' = map_option password (find (\<lambda>u. nip u = nip') (tbl_users db))"

text \<open>
  The fields of a record as the export lays them out, and the records whose export the
  reader of the format reads back: the fields written without quotes hold no comma, no
  double quote and no line feed, and the fields written in quotes hold no double quote.
\<close>

definition csv_fields :: "(real \<Rightarrow> string) \<Rightarrow> AttendanceRecord \<Rightarrow> string list" where
  "csv_fields numToString d =
     [userId d, userName d, date d, time d, position d, description d,
      numToString (lat (location d)) @ '', '' @ numToString (lng (location d))]"

definition plain :: "string \<Rightarrow> bool" where
  "plain s = (CHR '','' \<notin> set s \<and> dq \<notin> set s \<and> lf \<notin> set s)"

definition exportable :: "(real \<Rightarrow> string) \<Rightarrow> AttendanceRecord \<Rightarrow> bool" where
  "exportable numToString d =
     (plain (userId d) \<and> plain (date d) \<and> plain (time d) \<and>
      dq \<notin> set (userName d) \<and> dq \<notin> set (position d) \<and> dq \<notin> set (description d) \<and>
      dq \<notin> set (numToString (lat (location d))) \<and> dq \<notin> set (numToString (lng (location d))))"

section \<open>Sample data\<close>

text \<open>Concrete values at which the theorems below are instantiated.\<close>

definition sample_record :: "string \<Rightarrow> string \<Rightarrow> string \<Rightarrow> AttendanceRecord" where
  "sample_record i u d =
     \<lparr>record_id = i, userId = u, userName = ''Jane'', date = d, time = ''08.00.00'',
      position = ''Staff'', photo = ''data:image/jpeg;base64,AAAA'', description = ''Patrol'',
      location = \<lparr>lat = 0, lng = 0\<rparr>, comments = [], editHistory = []\<rparr>"

definition sample_attendances :: "AttendanceRecord list" where
  "sample_attendances =
     [sample_record ''3'' ''M002'' ''11/5/2024'',
      sample_record ''2'' ''M002'' ''10/5/2024'',
      sample_record ''1'' ''M001'' ''10/5/2024'']"

definition sample_db :: Database where
  "sample_db =
     \<lparr>tbl_users = [\<lparr>nip = ''M001'', name = ''Jane'', password = ''k3x9ab'', role = member\<rparr>],
      tbl_attendances = [],
      tbl_daily_token = [\<lparr>token_date = ''9/5/2024'', code = ''4821''\<rparr>]\<rparr>"

definition sample_row :: AttendanceRow where
  "sample_row =
     \<lparr>row_id = ''7'', user_id = ''M001'', user_name = ''Jane'', row_date = ''10/5/2024'',
      row_time = ''08.00.00'', row_position = ''Staff'', photo_url = None,
      row_photo = ''data:image/jpeg;base64,AAAA'', row_description = ''Patrol'',
      location_lat = - 6.2, location_lng = 106.8, row_comments = Some []\<rparr>"

definition sample_admin :: UserT where
  "sample_admin = \<lparr>nip = ''A001'', name = ''Rudi'', password = ''s3cret'', role = admin\<rparr>"

definition sample_app :: App where
  "sample_app =
     \<lparr>remote = sample_db\<lparr>tbl_attendances := [sample_row]\<rparr>, st_users = [], st_attendances = []\<rparr>"

definition sample_inputs :: "audit_input list" where
  "sample_inputs =
     [(sample_admin, ''1715306400000'', ''5/10/2024, 9:00:00 AM'', ''Confirmed on-site''),
      (sample_admin, ''1715306460000'', ''5/10/2024, 9:01:00 AM'', ''Photo checked'')]"

lemmas sample_defs = sample_row_def sample_admin_def sample_app_def sample_inputs_def sample_db_def

definition sample_user :: UserT where
  "sample_user = \<lparr>nip = ''M001'', name = ''Jane'', password = ''k3x9ab'', role = member\<rparr>"

text \<open>
  The language's conversion of a number to a string, on the numbers of the samples
  (\<open>String(0)\<close> is \<open>"0"\<close>, \<open>String(-6.2)\<close> is \<open>"-6.2"\<close>, \<open>String(106.8)\<close> is
  \<open>"106.8"\<close>).
\<close>

definition sample_numToString :: "real \<Rightarrow> string" where
  "sample_numToString x =
     (if x = 0 then ''0'' else if x = - 6.2 then ''-6.2'' else if x = 106.8 then ''106.8'' else ''1'')"

text \<open>A record whose description is a double quote, a line feed and a double quote.\<close>

definition quoting_record :: AttendanceRecord where
  "quoting_record = (sample_record ''1'' ''M001'' ''10/5/2024'')\<lparr>description := [dq, lf, dq]\<rparr>"

text \<open>
  A sequence of random numbers that walks through the alphabet, a remote that refuses a
  \<open>nip\<close> it already holds, and the lines of a file after its first line.
\<close>

definition sample_random :: "nat \<Rightarrow> real" where
  "sample_random j = real (j mod 36) / 36"

definition sample_resp :: "UserT \<Rightarrow> Database \<Rightarrow> string option" where
  "sample_resp u db = (if nip u \<in> set (map nip (tbl_users db)) then Some ''duplicate key'' else None)"

definition sample_rows :: string where
  "sample_rows = ''M010,Budi'' @ [lf] @ ''no second field'' @ [lf] @ ''M001,Jane again'' @ [lf]
     @ ''A002, Sari ,ADMIN'' @ [lf]"



text \<open>A remote on which the password of the sample user has been changed.\<close>

definition stale_db :: Database where
  "stale_db =
     \<lparr>tbl_users = [\<lparr>nip = ''M001'', name = ''Jane'', password = ''changed1'', role = member\<rparr>],
      tbl_attendances = [], tbl_daily_token = []\<rparr>"

text \<open>A record whose description holds a comma and a line feed.\<close>

definition comma_record :: AttendanceRecord where
  "comma_record =
     (sample_record ''1'' ''M001'' ''10/5/2024'')\<lparr>description := ''Patrol, gate 2'' @ [lf] @ ''all clear''\<rparr>"

section \<open>Properties of the date grouping\<close>

lemma set_add_all_set: "set (set_add_all seen xs) = set seen \<union> set xs"
  by (induction xs arbitrary: seen) auto

lemma set_add_all_distinct: "distinct seen \<Longrightarrow> distinct (set_add_all seen xs)"
  by (induction xs arbitrary: seen) auto

lemma uniqueDates_set: "set (uniqueDates attendances) = date ` set attendances"
  by (simp add: uniqueDates_def array_from_set_def set_add_all_set)

lemma uniqueDates_distinct: "distinct (uniqueDates attendances)"
  by (simp add: uniqueDates_def array_from_set_def set_add_all_distinct)

text \<open>
  Concatenating the buckets of pairwise different keys that cover every key of the input
  gives back the input, as a multiset.
\<close>

lemma buckets_mset:
  "distinct ds \<Longrightarrow>
   mset (concat (map (\<lambda>d. filter (\<lambda>a. f a = d) xs) ds)) = mset (filter (\<lambda>a. f a \<in> set ds) xs)"
proof (induction ds)
  case Nil
  then show ?case by simp
next
  case (Cons d ds)
  from Cons.prems have fresh: "d \<notin> set ds" by simp
  have parts: "filter_mset (\<lambda>a. f a = d \<or> f a \<in> set ds) M =
      filter_mset (\<lambda>a. f a = d) M + filter_mset (\<lambda>a. f a \<in> set ds) M" for M
    using fresh by (induction M) auto
  from Cons show ?case by (simp add: parts)
qed

lemma dateCount_count: "dateCount attendances d = count (mset (map date attendances)) d"
  by (induction attendances) (auto simp: dateCount_def)

text \<open>
  C7. The dates shown are pairwise different and every record's date is among them; a
  record of the input is in the bucket of a date exactly when that date is its own, so it
  is in exactly one bucket; the buckets together hold the records of the input, each as
  often as the input does; and the count shown for a date is the size of its bucket and
  the number of records of the input that carry the date.
\<close>

theorem groupByDate_partition:
  "distinct (uniqueDates attendances) \<and>
   (\<forall>a \<in> set attendances. date a \<in> set (uniqueDates attendances) \<and>
      (\<forall>d \<in> set (uniqueDates attendances). (a \<in> set (dayRecords attendances d)) = (d = date a))) \<and>
   mset (concat (map (dayRecords attendances) (uniqueDates attendances))) = mset attendances \<and>
   (\<forall>d \<in> set (uniqueDates attendances).
      dateCount attendances d = length (dayRecords attendances d) \<and>
      dateCount attendances d = count (mset (map date attendances)) d)"
proof (intro conjI ballI)
  show "distinct (uniqueDates attendances)" by (rule uniqueDates_distinct)
next
  fix a assume "a \<in> set attendances"
  then show "date a \<in> set (uniqueDates attendances)" by (simp add: uniqueDates_set)
next
  fix a d assume "a \<in> set attendances"
  then show "(a \<in> set (dayRecords attendances d)) = (d = date a)"
    by (auto simp: dayRecords_def)
next
  have "mset (concat (map (dayRecords attendances) (uniqueDates attendances))) =
        mset (filter (\<lambda>a. date a \<in> set (uniqueDates attendances)) attendances)"
    unfolding dayRecords_def using uniqueDates_distinct by (rule buckets_mset)
  also have "filter (\<lambda>a. date a \<in> set (uniqueDates attendances)) attendances = attendances"
    by (simp add: uniqueDates_set)
  finally show "mset (concat (map (dayRecords attendances) (uniqueDates attendances))) =
      mset attendances" .
next
  fix d
  show "dateCount attendances d = length (dayRecords attendances d)"
    by (simp add: dateCount_def dayRecords_def)
next
  fix d
  show "dateCount attendances d = count (mset (map date attendances)) d"
    by (rule dateCount_count)
qed

theorem groupByDate_partition_witness:
  "uniqueDates sample_attendances = [''11/5/2024'', ''10/5/2024''] \<and>
   sample_record ''2'' ''M002'' ''10/5/2024'' \<in> set sample_attendances \<and>
   dayRecords sample_attendances ''10/5/2024'' =
     [sample_record ''2'' ''M002'' ''10/5/2024'', sample_record ''1'' ''M001'' ''10/5/2024''] \<and>
   dateCount sample_attendances ''10/5/2024'' = 2 \<and>
   dateCount sample_attendances ''11/5/2024'' = 1 \<and>
   mset (concat (map (dayRecords sample_attendances) (uniqueDates sample_attendances))) =
     mset sample_attendances"
  using groupByDate_partition [of sample_attendances]
  by (simp add: uniqueDates_def array_from_set_def dayRecords_def dateCount_def
      sample_attendances_def sample_record_def)

section \<open>Properties of DatabaseHelper.getDailyToken\<close>












subsection \<open>getDailyToken\<close>




lemma token_table_ok_empty: "tbl_daily_token db = [] \<Longrightarrow> token_table_ok db"
  by (simp add: token_table_ok_def)





section \<open>Properties of the audit trail\<close>









text \<open>
  C6, as the code has it. When \<open>recordId\<close> is not the id of a record the view holds,
  \<open>handleAudit\<close> returns at once: no message is shown, the remote is not called and
  nothing changes. When the comment input is empty the button does not call
  \<open>handleAudit\<close>: again no message and no change. Every other text, also one of white
  space only, is passed to \<open>handleAudit\<close> as it is.
\<close>

theorem handleAudit_silent:
  "(find (\<lambda>a. record_id a = recordId) (st_attendances app) = None \<longrightarrow>
      handleAudit adminUser onRefresh now ts err recordId text' app = ([], app)) \<and>
   commentButton adminUser onRefresh now ts err selectedId [] app = ([], app) \<and>
   (input_value \<noteq> [] \<longrightarrow>
      commentButton adminUser onRefresh now ts err selectedId input_value app =
      handleAudit adminUser onRefresh now ts err selectedId input_value app)"
  by (simp add: handleAudit_def commentButton_def)

text \<open>
  At the sample application: sending a comment for the unknown id 8 shows no message and
  changes nothing, so does the empty text for record 7, and the text of three spaces is
  stored as a comment of record 7.
\<close>

theorem handleAudit_silent_counterexample:
  "handleAudit sample_admin (fetchData None None) ''1715306400000'' ''5/10/2024, 9:00:00 AM'' None
     ''8'' ''Confirmed on-site'' (fetchData None None sample_app) = ([], fetchData None None sample_app) \<and>
   commentButton sample_admin (fetchData None None) ''1715306400000'' ''5/10/2024, 9:00:00 AM'' None
     ''7'' [] (fetchData None None sample_app) = ([], fetchData None None sample_app) \<and>
   fst (commentButton sample_admin (fetchData None None) ''1715306400000'' ''5/10/2024, 9:00:00 AM'' None
     ''7'' ''   '' (fetchData None None sample_app)) = [''Komentar terkirim.''] \<and>
   stored_comments (remote (snd (commentButton sample_admin (fetchData None None) ''1715306400000''
     ''5/10/2024, 9:00:00 AM'' None ''7'' ''   '' (fetchData None None sample_app)))) ''7'' =
     Some [\<lparr>comment_id = ''1715306400000'', adminId = ''A001'', adminName = ''Rudi'',
             comment_text = ''   '', timestamp = ''5/10/2024, 9:00:00 AM''\<rparr>]"
  by (simp add: handleAudit_def commentButton_def fetchData_def getAttendances_def getUsers_def
      to_record_def addComment_def stored_comments_def sample_defs Let_def)

theorem handleAudit_silent_witness:
  "find (\<lambda>a. record_id a = ''8'') (st_attendances (fetchData None None sample_app)) = None \<and>
   handleAudit sample_admin (fetchData None None) ''1715306400000'' ''5/10/2024, 9:00:00 AM'' None
     ''8'' ''Confirmed on-site'' (fetchData None None sample_app) = ([], fetchData None None sample_app) \<and>
   ''   '' \<noteq> [] \<and>
   commentButton sample_admin (fetchData None None) ''1715306400000'' ''5/10/2024, 9:00:00 AM'' None
     ''7'' ''   '' (fetchData None None sample_app) =
   handleAudit sample_admin (fetchData None None) ''1715306400000'' ''5/10/2024, 9:00:00 AM'' None
     ''7'' ''   '' (fetchData None None sample_app)"
proof -
  have h: "find (\<lambda>a. record_id a = ''8'') (st_attendances (fetchData None None sample_app)) = None"
    by (simp add: fetchData_def getAttendances_def to_record_def sample_defs)
  from handleAudit_silent [of "''8''" "fetchData None None sample_app" sample_admin
      "fetchData None None" "''1715306400000''" "''5/10/2024, 9:00:00 AM''" None "''Confirmed on-site''"
      "''7''" "''   ''"] h
  show ?thesis by simp
qed

section \<open>Properties of AttendanceForm.submit\<close>





text \<open>
  C4. For a submission with non-empty position, description and photo and a location
  reading, the insert succeeding: \<open>getAttendances\<close> afterwards returns, before the
  records it returned until then, a record with the submitter's \<open>nip\<close> and \<open>name\<close>,
  the submitted position, description, photo and location, the date and time strings of
  the submission, and no comments. (The \<open>id\<close> is the one the store gave the row.)
\<close>

theorem submit_then_list:
  assumes "position' \<noteq> []" and "desc \<noteq> []" and "photo' \<noteq> []"
  shows "fst (submit user position' desc photo' today now (Some (latitude, longitude)) None new_id db)
           = ''Absensi Berhasil Terkirim!'' \<and>
         getAttendances None
           (snd (submit user position' desc photo' today now (Some (latitude, longitude)) None new_id db))
           = \<lparr>record_id = new_id,
              userId = nip user,
              userName = name user,
              date = today,
              time = now,
              position = position',
              photo = photo',
              description = desc,
              location = \<lparr>lat = latitude, lng = longitude\<rparr>,
              comments = [],
              editHistory = []\<rparr> # getAttendances None db"
  using assms
  by (simp add: submit_def addAttendance_def getAttendances_def to_record_def or_else_def)

theorem submit_then_list_witness:
  "''Staff'' \<noteq> [] \<and> ''Patrol'' \<noteq> [] \<and> ''data:image/jpeg;base64,AAAA'' \<noteq> [] \<and>
   getAttendances None
     (snd (submit sample_user ''Staff'' ''Patrol'' ''data:image/jpeg;base64,AAAA'' ''10/5/2024''
        ''08.00.00'' (Some (- 6.2, 106.8)) None ''8'' sample_db))
   = [\<lparr>record_id = ''8'', userId = ''M001'', userName = ''Jane'', date = ''10/5/2024'',
       time = ''08.00.00'', position = ''Staff'', photo = ''data:image/jpeg;base64,AAAA'',
       description = ''Patrol'', location = \<lparr>lat = - 6.2, lng = 106.8\<rparr>,
       comments = [], editHistory = []\<rparr>]"
proof -
  have h: "''Staff'' \<noteq> []" "''Patrol'' \<noteq> []" "''data:image/jpeg;base64,AAAA'' \<noteq> []"
    by simp_all
  from submit_then_list [OF h, of sample_user "''10/5/2024''" "''08.00.00''" "- 6.2"
      "106.8" "''8''" sample_db]
  show ?thesis by (simp add: sample_user_def getAttendances_def sample_db_def)
qed


section \<open>Properties of ChangePasswordPage.handleSubmit\<close>

text \<open>
  C5, as the code has it. The old password is compared with the password of the
  component's copy of the user, not with the remote. A new password shorter than 4
  characters and an old password other than the copy's are both refused: the remote is
  left as it is, whatever it would have answered. The message is that of the first check
  that fails, in the order: a field is empty; the old password differs
  (\<open>Password lama salah.\<close>); the confirmation differs; the new password has fewer than
  4 characters (\<open>Password minimal 4 karakter.\<close>). When the copy holds the stored
  password, a short new password or an old password other than the stored one is
  refused and the stored password stays.
\<close>

theorem handleSubmit_rejects:
  "(length newPass < 4 \<or> oldPass \<noteq> password user \<longrightarrow>
      snd (handleSubmit user oldPass newPass confirmPass err db) = db \<and>
      handleSubmit user oldPass newPass confirmPass err db =
        handleSubmit user oldPass newPass confirmPass err' db \<and>
      fst (handleSubmit user oldPass newPass confirmPass err db) \<in>
        {Inl ''Semua field harus diisi.'', Inl ''Password lama salah.'',
         Inl ''Konfirmasi password baru tidak cocok.'', Inl ''Password minimal 4 karakter.''}) \<and>
   (fst (handleSubmit user oldPass newPass confirmPass err db) = Inl ''Semua field harus diisi.'')
     = (oldPass = [] \<or> newPass = [] \<or> confirmPass = []) \<and>
   (fst (handleSubmit user oldPass newPass confirmPass err db) = Inl ''Password lama salah.'')
     = (oldPass \<noteq> [] \<and> newPass \<noteq> [] \<and> confirmPass \<noteq> [] \<and> oldPass \<noteq> password user) \<and>
   (fst (handleSubmit user oldPass newPass confirmPass err db) =
      Inl ''Konfirmasi password baru tidak cocok.'')
     = (oldPass \<noteq> [] \<and> newPass \<noteq> [] \<and> confirmPass \<noteq> [] \<and> oldPass = password user \<and>
        newPass \<noteq> confirmPass) \<and>
   (fst (handleSubmit user oldPass newPass confirmPass err db) = Inl ''Password minimal 4 karakter.'')
     = (oldPass \<noteq> [] \<and> newPass \<noteq> [] \<and> confirmPass \<noteq> [] \<and> oldPass = password user \<and>
        newPass = confirmPass \<and> length newPass < 4) \<and>
   (stored_password db (nip user) = Some (password user) \<and>
    (length newPass < 4 \<or> Some oldPass \<noteq> stored_password db (nip user)) \<longrightarrow>
      (\<exists>m. fst (handleSubmit user oldPass newPass confirmPass err db) = Inl m) \<and>
      stored_password (snd (handleSubmit user oldPass newPass confirmPass err db)) (nip user) =
        Some (password user))"
  by (auto simp: handleSubmit_def updateUserPassword_def split: option.splits)

text \<open>
  With a copy of the user older than the stored password, the old password of the copy,
  which is not the stored one, is accepted and the stored password replaced. With the
  sample user: an empty new password and an empty old password are refused with the
  message for an empty field, and a new password of three characters whose confirmation
  differs with the message for the confirmation.
\<close>

theorem handleSubmit_rejects_counterexample:
  "stored_password stale_db (nip sample_user) = Some ''changed1'' \<and>
   ''k3x9ab'' \<noteq> ''changed1'' \<and>
   handleSubmit sample_user ''k3x9ab'' ''n3wpass'' ''n3wpass'' None stale_db =
     (Inr ''n3wpass'',
      stale_db\<lparr>tbl_users :=
        [\<lparr>nip = ''M001'', name = ''Jane'', password = ''n3wpass'', role = member\<rparr>]\<rparr>) \<and>
   length ([] :: string) < 4 \<and> ''k3x9ab'' = password sample_user \<and>
   handleSubmit sample_user ''k3x9ab'' [] [] None sample_db =
     (Inl ''Semua field harus diisi.'', sample_db) \<and>
   Inl ''Semua field harus diisi.'' \<noteq> (Inl ''Password minimal 4 karakter.'' :: string + string) \<and>
   length ''abc'' < 4 \<and>
   handleSubmit sample_user ''k3x9ab'' ''abc'' ''abd'' None sample_db =
     (Inl ''Konfirmasi password baru tidak cocok.'', sample_db) \<and>
   Inl ''Konfirmasi password baru tidak cocok.'' \<noteq>
     (Inl ''Password minimal 4 karakter.'' :: string + string) \<and>
   [] \<noteq> password sample_user \<and>
   handleSubmit sample_user [] ''n3wpass'' ''n3wpass'' None sample_db =
     (Inl ''Semua field harus diisi.'', sample_db) \<and>
   Inl ''Semua field harus diisi.'' \<noteq> (Inl ''Password lama salah.'' :: string + string)"
  by (simp add: handleSubmit_def sample_user_def stale_db_def stored_password_def
      updateUserPassword_def)

theorem handleSubmit_rejects_witness:
  "length ''abc'' < 4 \<and>
   handleSubmit sample_user ''k3x9ab'' ''abc'' ''abc'' None sample_db =
     (Inl ''Password minimal 4 karakter.'', sample_db) \<and>
   stored_password sample_db (nip sample_user) = Some (password sample_user) \<and>
   Some ''guess'' \<noteq> stored_password sample_db (nip sample_user) \<and>
   handleSubmit sample_user ''guess'' ''n3wpass'' ''n3wpass'' None sample_db =
     (Inl ''Password lama salah.'', sample_db) \<and>
   stored_password (snd (handleSubmit sample_user ''guess'' ''n3wpass'' ''n3wpass'' None sample_db))
     (nip sample_user) = Some ''k3x9ab''"
proof -
  have s: "stored_password sample_db (nip sample_user) = Some (password sample_user)"
    by (simp add: stored_password_def sample_db_def sample_user_def)
  have p: "password sample_user = ''k3x9ab''" by (simp add: sample_user_def)
  note a = handleSubmit_rejects [of "''abc''" "''k3x9ab''" sample_user "''abc''" None sample_db None]
  note b = handleSubmit_rejects [of "''n3wpass''" "''guess''" sample_user "''n3wpass''" None sample_db None]
  from a p have 1: "handleSubmit sample_user ''k3x9ab'' ''abc'' ''abc'' None sample_db =
     (Inl ''Password minimal 4 karakter.'', sample_db)"
    by (simp add: prod_eq_iff)
  from b p have 2: "handleSubmit sample_user ''guess'' ''n3wpass'' ''n3wpass'' None sample_db =
     (Inl ''Password lama salah.'', sample_db)"
    by (simp add: prod_eq_iff)
  from s p 1 2 show ?thesis by simp
qed


section \<open>Properties of the CSV export\<close>

lemma split_no_sep: "sep \<notin> set s \<Longrightarrow> split sep s = [s]"
  by (induction s) auto

lemma split_append_sep:
  "sep \<notin> set s \<Longrightarrow> split sep (s @ sep # t) = s # split sep t"
  by (induction s) auto

lemma split_join:
  "xs \<noteq> [] \<Longrightarrow> \<forall>x \<in> set xs. sep \<notin> set x \<Longrightarrow> split sep (join [sep] xs) = xs"
proof (induction xs rule: induct_list012)
  case 1
  then show ?case by simp
next
  case (2 x)
  then show ?case by (simp add: split_no_sep)
next
  case (3 x y zs)
  then show ?case by (simp add: split_append_sep)
qed

lemma replace_slashes_none: "CHR ''/'' \<notin> set (replace_slashes s)"
  by (auto simp: replace_slashes_def)


lemma join_rows: "join [sep] (x # xs) = x @ concat (map (\<lambda>y. sep # y) xs)"
  by (induction xs arbitrary: x) auto

lemma read_unquoted:
  "plain s \<Longrightarrow> st = FieldStart \<or> st = Unquoted \<Longrightarrow>
   csv_read st f row rows (s @ CHR '','' # rest) = csv_read FieldStart [] (row @ [f @ s]) rows rest"
proof (induction s arbitrary: st f)
  case Nil
  then show ?case by auto
next
  case (Cons c s)
  from Cons.prems(1) have c: "c \<noteq> CHR '',''" "c \<noteq> dq" "c \<noteq> lf" and s: "plain s"
    by (auto simp: plain_def)
  from Cons.prems(2) c have "csv_read st f row rows ((c # s) @ CHR '','' # rest) =
      csv_read Unquoted (f @ [c]) row rows (s @ CHR '','' # rest)"
    by auto
  also from Cons.IH [OF s, of Unquoted "f @ [c]"] have "\<dots> = csv_read FieldStart [] (row @ [f @ c # s]) rows rest"
    by simp
  finally show ?case .
qed

lemma read_quoted:
  "dq \<notin> set q \<Longrightarrow>
   csv_read Quoted f row rows (q @ dq # rest) = csv_read QuoteSeen (f @ q) row rows rest"
  by (induction q arbitrary: f) auto

lemma dq_chars: "dq \<noteq> CHR '',''" "dq \<noteq> lf" "lf \<noteq> CHR '',''"
  by (simp_all add: dq_def lf_def)

lemma read_quoted_comma:
  "dq \<notin> set q \<Longrightarrow>
   csv_read FieldStart [] row rows (dq # q @ dq # CHR '','' # rest) =
   csv_read FieldStart [] (row @ [q]) rows rest"
  by (simp add: read_quoted dq_chars)

lemma read_quoted_lf:
  "dq \<notin> set q \<Longrightarrow>
   csv_read FieldStart [] row rows (dq # q @ dq # lf # rest) =
   csv_read FieldStart [] [] (rows @ [row @ [q]]) rest"
  by (simp add: read_quoted dq_chars)

lemma read_quoted_end:
  "dq \<notin> set q \<Longrightarrow>
   csv_read FieldStart [] row rows (dq # q @ [dq]) = Some (rows @ [row @ [q]])"
  by (simp add: read_quoted dq_chars)

lemma read_row_generic:
  assumes "plain a" "dq \<notin> set b" "plain c" "plain d" "dq \<notin> set e" "dq \<notin> set g" "dq \<notin> set h"
  shows "csv_read FieldStart [] [] rows
           (a @ CHR '','' # dq # b @ dq # CHR '','' # c @ CHR '','' # d @ CHR '','' # dq # e @ dq #
            CHR '','' # dq # g @ dq # CHR '','' # dq # h @ dq # lf # rest) =
         csv_read FieldStart [] [] (rows @ [[a, b, c, d, e, g, h]]) rest"
    and "csv_read FieldStart [] [] rows
           (a @ CHR '','' # dq # b @ dq # CHR '','' # c @ CHR '','' # d @ CHR '','' # dq # e @ dq #
            CHR '','' # dq # g @ dq # CHR '','' # dq # h @ [dq]) =
         Some (rows @ [[a, b, c, d, e, g, h]])"
  using assms
  by (simp_all only: read_unquoted read_quoted_comma read_quoted_lf read_quoted_end
      append_Nil append_Cons simp_thms)

lemma numbers_unquoted:
  "dq \<notin> set x \<Longrightarrow> dq \<notin> set y \<Longrightarrow> dq \<notin> set (x @ '', '' @ y)"
  by (simp add: dq_def)

lemma read_row:
  assumes "exportable numToString d"
  shows "csv_read FieldStart [] [] rows (csv_row numToString d @ lf # rest) =
         csv_read FieldStart [] [] (rows @ [csv_fields numToString d]) rest"
    and "csv_read FieldStart [] [] rows (csv_row numToString d) =
         Some (rows @ [csv_fields numToString d])"
proof -
  let ?h = "numToString (lat (location d)) @ '', '' @ numToString (lng (location d))"
  from assms have p: "plain (userId d)" "dq \<notin> set (userName d)" "plain (date d)" "plain (time d)"
      "dq \<notin> set (position d)" "dq \<notin> set (description d)" "dq \<notin> set ?h"
    by (simp_all add: exportable_def dq_def)
  have r1: "csv_row numToString d @ lf # rest =
      userId d @ CHR '','' # dq # userName d @ dq # CHR '','' # date d @ CHR '','' # time d @
      CHR '','' # dq # position d @ dq # CHR '','' # dq # description d @ dq # CHR '','' # dq #
      ?h @ dq # lf # rest"
    by (simp add: csv_row_def)
  have r2: "csv_row numToString d =
      userId d @ CHR '','' # dq # userName d @ dq # CHR '','' # date d @ CHR '','' # time d @
      CHR '','' # dq # position d @ dq # CHR '','' # dq # description d @ dq # CHR '','' # dq #
      ?h @ [dq]"
    by (simp add: csv_row_def)
  show "csv_read FieldStart [] [] rows (csv_row numToString d @ lf # rest) =
         csv_read FieldStart [] [] (rows @ [csv_fields numToString d]) rest"
    unfolding r1 csv_fields_def by (rule read_row_generic(1) [OF p])
  show "csv_read FieldStart [] [] rows (csv_row numToString d) =
         Some (rows @ [csv_fields numToString d])"
    unfolding r2 csv_fields_def by (rule read_row_generic(2) [OF p])
qed

lemma read_rows:
  "\<forall>r \<in> set (d # ds). exportable numToString r \<Longrightarrow>
   csv_read FieldStart [] [] rows (join [lf] (map (csv_row numToString) (d # ds))) =
   Some (rows @ map (csv_fields numToString) (d # ds))"
proof (induction ds arbitrary: d rows)
  case Nil
  then show ?case by (simp add: read_row(2))
next
  case (Cons d' ds)
  from Cons.prems have d: "exportable numToString d"
    and rest: "\<forall>r \<in> set (d' # ds). exportable numToString r" by simp_all
  have "csv_read FieldStart [] [] rows (join [lf] (map (csv_row numToString) (d # d' # ds))) =
        csv_read FieldStart [] [] (rows @ [csv_fields numToString d])
          (join [lf] (map (csv_row numToString) (d' # ds)))"
    using read_row(1) [OF d, of rows "join [lf] (map (csv_row numToString) (d' # ds))"] by simp
  also have "\<dots> = Some ((rows @ [csv_fields numToString d]) @ map (csv_fields numToString) (d' # ds))"
    by (rule Cons.IH [OF rest])
  finally show ?case by simp
qed

lemma read_header:
  "csv_read FieldStart [] [] [] (''NIP,Nama,Tanggal,Jam,Jabatan,Keterangan,Lokasi'' @ lf # rest) =
   csv_read FieldStart [] [] [[''NIP'', ''Nama'', ''Tanggal'', ''Jam'', ''Jabatan'', ''Keterangan'', ''Lokasi'']] rest"
  by (simp add: dq_def lf_def)

lemma read_header_only:
  "csv_read FieldStart [] [] [] ''NIP,Nama,Tanggal,Jam,Jabatan,Keterangan,Lokasi'' =
   Some [[''NIP'', ''Nama'', ''Tanggal'', ''Jam'', ''Jabatan'', ''Keterangan'', ''Lokasi'']]"
  by (simp add: dq_def lf_def)

lemma read_document:
  assumes "\<forall>r \<in> set data. exportable numToString r"
  shows "rfc4180_rows (csv_document numToString data) =
    Some ([''NIP'', ''Nama'', ''Tanggal'', ''Jam'', ''Jabatan'', ''Keterangan'', ''Lokasi'']
          # map (csv_fields numToString) data)"
proof (cases data)
  case Nil
  have "csv_document numToString [] = ''NIP,Nama,Tanggal,Jam,Jabatan,Keterangan,Lokasi''"
    by (simp add: csv_document_def headers_def)
  with Nil show ?thesis by (simp only: rfc4180_rows_def read_header_only list.map append_Nil)
next
  case (Cons d ds)
  have doc: "csv_document numToString data =
      ''NIP,Nama,Tanggal,Jam,Jabatan,Keterangan,Lokasi'' @ lf #
        join [lf] (map (csv_row numToString) (d # ds))"
    by (simp add: csv_document_def headers_def Cons)
  from assms Cons have e: "\<forall>r \<in> set (d # ds). exportable numToString r" by simp
  have "rfc4180_rows (csv_document numToString data) =
      csv_read FieldStart [] []
        [[''NIP'', ''Nama'', ''Tanggal'', ''Jam'', ''Jabatan'', ''Keterangan'', ''Lokasi'']]
        (join [lf] (map (csv_row numToString) (d # ds)))"
    unfolding rfc4180_rows_def doc by (rule read_header)
  also have "\<dots> =
      Some ([[''NIP'', ''Nama'', ''Tanggal'', ''Jam'', ''Jabatan'', ''Keterangan'', ''Lokasi'']]
            @ map (csv_fields numToString) (d # ds))"
    by (rule read_rows [OF e])
  finally show ?thesis by (simp add: Cons)
qed

text \<open>
  C9, as the code has it. The document is the header
  \<open>NIP,Nama,Tanggal,Jam,Jabatan,Keterangan,Lokasi\<close> followed, for each record in
  order, by a line feed and the record's row: the user id, the name in double quotes, the
  date, the time, and the position, the description and the location \<open>lat, lng\<close>
  each in double quotes, separated by commas. For records whose quoted fields hold no
  double quote and whose other fields hold no comma, double quote or line feed, the
  document reads by the rules of the format as the header and one row of seven fields
  per record, in that column order, commas and line feeds inside the quoted fields kept;
  and when no row holds a line feed the lines of the document are the header and the
  rows. The link holds the document behind \<open>data:text/csv;charset=utf-8,\<close>, passed
  through \<open>encodeURI\<close>; the file name is \<open>Absensi_\<close>, the date with every slash
  replaced by a hyphen, and \<open>.csv\<close>, and holds no slash.
\<close>

theorem handleDownloadCSV_format:
  "csv_document numToString data =
     ''NIP,Nama,Tanggal,Jam,Jabatan,Keterangan,Lokasi'' @
     concat (map (\<lambda>d. lf # csv_row numToString d) data) \<and>
   csv_row numToString d =
     userId d @ '','' @ [dq] @ userName d @ [dq] @ '','' @ date d @ '','' @ time d @ '',''
     @ [dq] @ position d @ [dq] @ '','' @ [dq] @ description d @ [dq] @ '',''
     @ [dq] @ numToString (lat (location d)) @ '', '' @ numToString (lng (location d)) @ [dq] \<and>
   ((\<forall>r \<in> set data. exportable numToString r) \<longrightarrow>
      rfc4180_rows (csv_document numToString data) =
        Some ([''NIP'', ''Nama'', ''Tanggal'', ''Jam'', ''Jabatan'', ''Keterangan'', ''Lokasi'']
              # map (csv_fields numToString) data)) \<and>
   ((\<forall>r \<in> set data. lf \<notin> set (csv_row numToString r)) \<longrightarrow>
      split lf (csv_document numToString data) =
        ''NIP,Nama,Tanggal,Jam,Jabatan,Keterangan,Lokasi'' # map (csv_row numToString) data) \<and>
   href (handleDownloadCSV numToString encodeURI date' data) =
     encodeURI (''data:text/csv;charset=utf-8,'' @ csv_document numToString data) \<and>
   download (handleDownloadCSV numToString encodeURI date' data) =
     ''Absensi_'' @ map (\<lambda>c. if c = CHR ''/'' then CHR ''-'' else c) date' @ ''.csv'' \<and>
   CHR ''/'' \<notin> set (download (handleDownloadCSV numToString encodeURI date' data))"
proof (intro conjI impI)
  show "csv_document numToString data =
     ''NIP,Nama,Tanggal,Jam,Jabatan,Keterangan,Lokasi'' @
     concat (map (\<lambda>d. lf # csv_row numToString d) data)"
    by (simp add: csv_document_def headers_def join_rows comp_def)
next
  show "csv_row numToString d =
     userId d @ '','' @ [dq] @ userName d @ [dq] @ '','' @ date d @ '','' @ time d @ '',''
     @ [dq] @ position d @ [dq] @ '','' @ [dq] @ description d @ [dq] @ '',''
     @ [dq] @ numToString (lat (location d)) @ '', '' @ numToString (lng (location d)) @ [dq]"
    by (simp add: csv_row_def)
next
  assume "\<forall>r \<in> set data. exportable numToString r"
  then show "rfc4180_rows (csv_document numToString data) =
        Some ([''NIP'', ''Nama'', ''Tanggal'', ''Jam'', ''Jabatan'', ''Keterangan'', ''Lokasi'']
              # map (csv_fields numToString) data)"
    by (rule read_document)
next
  assume a: "\<forall>r \<in> set data. lf \<notin> set (csv_row numToString r)"
  have "split lf (join [lf]
          (''NIP,Nama,Tanggal,Jam,Jabatan,Keterangan,Lokasi'' # map (csv_row numToString) data)) =
        ''NIP,Nama,Tanggal,Jam,Jabatan,Keterangan,Lokasi'' # map (csv_row numToString) data"
    using a by (intro split_join) (auto simp: lf_def)
  then show "split lf (csv_document numToString data) =
        ''NIP,Nama,Tanggal,Jam,Jabatan,Keterangan,Lokasi'' # map (csv_row numToString) data"
    by (simp add: csv_document_def headers_def)
next
  show "href (handleDownloadCSV numToString encodeURI date' data) =
     encodeURI (''data:text/csv;charset=utf-8,'' @ csv_document numToString data)"
    by (simp add: handleDownloadCSV_def Let_def)
next
  show "download (handleDownloadCSV numToString encodeURI date' data) =
     ''Absensi_'' @ map (\<lambda>c. if c = CHR ''/'' then CHR ''-'' else c) date' @ ''.csv''"
    by (simp add: handleDownloadCSV_def replace_slashes_def Let_def)
next
  show "CHR ''/'' \<notin> set (download (handleDownloadCSV numToString encodeURI date' data))"
    using replace_slashes_none [of date'] by (simp add: handleDownloadCSV_def Let_def)
qed

text \<open>The header and the file name are not the ones the claim gives.\<close>

theorem handleDownloadCSV_format_counterexample:
  "csv_document sample_numToString [] = ''NIP,Nama,Tanggal,Jam,Jabatan,Keterangan,Lokasi'' \<and>
   csv_document sample_numToString [] \<noteq> ''ID,Name,Date,Time,Position,Description,Location'' \<and>
   download (handleDownloadCSV sample_numToString (\<lambda>s. s) ''10/5/2024'' []) = ''Absensi_10-5-2024.csv'' \<and>
   download (handleDownloadCSV sample_numToString (\<lambda>s. s) ''10/5/2024'' []) \<noteq>
     ''Attendance_10-5-2024.csv''"
  by (simp add: csv_document_def headers_def handleDownloadCSV_def replace_slashes_def)

theorem handleDownloadCSV_format_witness:
  "exportable sample_numToString comma_record \<and>
   rfc4180_rows (csv_document sample_numToString [comma_record]) =
     Some [[''NIP'', ''Nama'', ''Tanggal'', ''Jam'', ''Jabatan'', ''Keterangan'', ''Lokasi''],
           [''M001'', ''Jane'', ''10/5/2024'', ''08.00.00'', ''Staff'',
            ''Patrol, gate 2'' @ [lf] @ ''all clear'', ''0, 0'']] \<and>
   lf \<notin> set (csv_row sample_numToString (sample_record ''1'' ''M001'' ''10/5/2024'')) \<and>
   length (split lf (csv_document sample_numToString [sample_record ''1'' ''M001'' ''10/5/2024''])) = 2 \<and>
   download (handleDownloadCSV sample_numToString (\<lambda>s. s) ''10/5/2024'' [comma_record]) =
     ''Absensi_10-5-2024.csv''"
proof -
  have e: "\<forall>r \<in> set [comma_record]. exportable sample_numToString r"
    by (simp add: exportable_def plain_def comma_record_def sample_record_def
        sample_numToString_def dq_def lf_def)
  have l: "\<forall>r \<in> set [sample_record ''1'' ''M001'' ''10/5/2024'']. lf \<notin> set (csv_row sample_numToString r)"
    by (simp add: csv_row_def sample_record_def sample_numToString_def lf_def dq_def)
  note f = handleDownloadCSV_format [of sample_numToString "[comma_record]" comma_record
      "\<lambda>s. s" "''10/5/2024''"]
  note g = handleDownloadCSV_format [of sample_numToString "[sample_record ''1'' ''M001'' ''10/5/2024'']"
      comma_record "\<lambda>s. s" "''10/5/2024''"]
  from f [THEN conjunct2, THEN conjunct2, THEN conjunct1, THEN mp, OF e]
  have rows: "rfc4180_rows (csv_document sample_numToString [comma_record]) =
     Some [[''NIP'', ''Nama'', ''Tanggal'', ''Jam'', ''Jabatan'', ''Keterangan'', ''Lokasi''],
           [''M001'', ''Jane'', ''10/5/2024'', ''08.00.00'', ''Staff'',
            ''Patrol, gate 2'' @ [lf] @ ''all clear'', ''0, 0'']]"
    by (simp add: csv_fields_def comma_record_def sample_record_def sample_numToString_def)
  from g [THEN conjunct2, THEN conjunct2, THEN conjunct2, THEN conjunct1, THEN mp, OF l]
  have lines: "length (split lf (csv_document sample_numToString
      [sample_record ''1'' ''M001'' ''10/5/2024''])) = 2"
    by simp
  from f [THEN conjunct2, THEN conjunct2, THEN conjunct2, THEN conjunct2, THEN conjunct2, THEN conjunct1]
  have name: "download (handleDownloadCSV sample_numToString (\<lambda>s. s) ''10/5/2024'' [comma_record]) =
     ''Absensi_10-5-2024.csv''"
    by simp
  from e l rows lines name show ?thesis by simp
qed


text \<open>The reader on the export of a plain record: the header and one row of seven fields.\<close>

lemma rfc4180_rows_sample:
  "rfc4180_rows (csv_document sample_numToString [sample_record ''1'' ''M001'' ''10/5/2024'']) =
     Some [[''NIP'', ''Nama'', ''Tanggal'', ''Jam'', ''Jabatan'', ''Keterangan'', ''Lokasi''],
           [''M001'', ''Jane'', ''10/5/2024'', ''08.00.00'', ''Staff'', ''Patrol'', ''0, 0'']]"
  by (simp add: rfc4180_rows_def csv_document_def headers_def csv_row_def sample_record_def
      sample_numToString_def lf_def dq_def)

text \<open>
  C8 fails on the code. The export wraps the description in double quotes and leaves a
  double quote inside it as it is. For the one record \<open>quoting_record\<close> the document
  reads, by the rules of the format, as the header and two rows, of six and of two
  fields: the row of the record is cut in two inside its description.
\<close>

theorem exportTabular_quote_breaks_rows:
  "rfc4180_rows (csv_document sample_numToString [quoting_record]) =
     Some [[''NIP'', ''Nama'', ''Tanggal'', ''Jam'', ''Jabatan'', ''Keterangan'', ''Lokasi''],
           [''M001'', ''Jane'', ''10/5/2024'', ''08.00.00'', ''Staff'', ''''],
           ['''', ''0, 0'']]"
  by (simp add: rfc4180_rows_def csv_document_def headers_def csv_row_def sample_record_def
      quoting_record_def sample_numToString_def lf_def dq_def)

section \<open>Properties of the import\<close>

lemma random_index:
  assumes "0 \<le> (r::real)" "r < 1"
  shows "0 \<le> \<lfloor>r * real (length chars)\<rfloor> \<and> \<lfloor>r * real (length chars)\<rfloor> < int (length chars)"
proof -
  have len: "real (length chars) = 36" by (simp add: chars_def)
  have "0 \<le> r * 36" using assms by simp
  then have lo: "0 \<le> \<lfloor>r * 36\<rfloor>" by simp
  have "r * 36 < 36" using assms by simp
  then have "\<lfloor>r * 36\<rfloor> < 36" by linarith
  with lo show ?thesis by (simp add: len chars_def)
qed

lemma charAt_random:
  assumes "0 \<le> (r::real)" "r < 1"
  shows "\<exists>c \<in> set chars. charAt chars \<lfloor>r * real (length chars)\<rfloor> = [c]"
proof -
  define i where "i = \<lfloor>r * real (length chars)\<rfloor>"
  from random_index [OF assms] have i: "0 \<le> i" "i < int (length chars)"
    by (simp_all add: i_def)
  then have "nat i < length chars" by linarith
  then have "chars ! nat i \<in> set chars" by (rule nth_mem)
  moreover from i have "charAt chars i = [chars ! nat i]" by (simp add: charAt_def)
  ultimately show ?thesis unfolding i_def by blast
qed

lemma password_loop_ok:
  assumes rnd: "\<forall>j. 0 \<le> random j \<and> random j < 1"
  shows "i \<le> 6 \<Longrightarrow> set pw \<subseteq> set chars \<Longrightarrow>
    length (password_loop random k i pw) = length pw + (6 - i) \<and>
    set (password_loop random k i pw) \<subseteq> set chars"
  using rnd
proof (induction random k i pw rule: password_loop.induct)
  case (1 random k i pw)
  show ?case
  proof (cases "i < 6")
    case True
    from 1(4) have "0 \<le> random (k + i)" "random (k + i) < 1" by auto
    from charAt_random [OF this] obtain c where
      c: "c \<in> set chars" "charAt chars \<lfloor>random (k + i) * real (length chars)\<rfloor> = [c]" by auto
    with 1(3) have sub: "set (pw @ charAt chars \<lfloor>random (k + i) * real (length chars)\<rfloor>) \<subseteq> set chars"
      by simp
    from True have le: "i + 1 \<le> 6" by simp
    from "1.IH" [OF True le sub 1(4)] True c show ?thesis
      by (subst (1 2) password_loop.simps) simp
  next
    case False
    with 1(2,3) show ?thesis by (subst (1 2) password_loop.simps) simp
  qed
qed

lemma generatePassword_ok:
  assumes "\<forall>j. 0 \<le> random j \<and> random j < 1"
  shows "length (generatePassword random k) = 6 \<and> set (generatePassword random k) \<subseteq> set chars"
  using password_loop_ok [OF assms, of 0 "[]" k] by (simp add: generatePassword_def)

lemma import_loop_lines:
  "import_loop lines random resp i cnt k db = import_lines random resp (drop i lines) cnt k db"
proof (induction lines random resp i cnt k db rule: import_loop.induct)
  case (1 lines random resp i cnt k db)
  show ?case
  proof (cases "i < length lines")
    case True
    then have d: "drop i lines = lines ! i # drop (i + 1) lines"
      by (simp add: Cons_nth_drop_Suc)
    from True 1 show ?thesis
      by (subst import_loop.simps) (simp add: d Let_def split: sum.splits)
  next
    case False
    then show ?thesis by (subst import_loop.simps) simp
  qed
qed

lemma handleImport_lines:
  "handleImport text' random resp k db =
     (case import_lines random resp (tl (split lf text')) 0 k db of
        (cnt, k', db') \<Rightarrow> (''Berhasil import '' @ nat_toString cnt @ '' user.'', k', db'))"
  by (simp add: handleImport_def import_loop_lines drop_Suc)

lemma length_split: "length (split sep s) = Suc (length (filter (\<lambda>c. c = sep) s))"
  by (induction s) (auto split: list.splits)

lemma split_short: "length (split sep s) < 2 \<Longrightarrow> sep \<notin> set s"
  by (auto simp: length_split filter_empty_conv)

lemma import_lines_result:
  assumes rnd: "\<forall>j. 0 \<le> random j \<and> random j < 1"
  shows "\<exists>news ks.
     fst (import_lines random resp ls cnt k db) = cnt + length news \<and>
     tbl_users (snd (snd (import_lines random resp ls cnt k db))) = tbl_users db @ news \<and>
     map password news = map (generatePassword random) ks \<and>
     sorted_wrt (\<lambda>a b. a + 6 \<le> b) ks \<and> (\<forall>x \<in> set ks. k \<le> x) \<and>
     (\<forall>u \<in> set news. length (password u) = 6 \<and> set (password u) \<subseteq> set chars)"
proof (induction ls arbitrary: cnt k db)
  case Nil
  show ?case by (rule exI [of _ "[]"], rule exI [of _ "[]"]) simp
next
  case (Cons l ls)
  let ?row = "split (CHR '','') l"
  let ?user = "user_of_row ?row (generatePassword random k)"
  show ?case
  proof (cases "2 \<le> length ?row")
    case False
    with Cons [of cnt k db] show ?thesis by (simp add: Let_def)
  next
    case True
    show ?thesis
    proof (cases "resp ?user db")
      case (Some m)
      from Cons [of cnt "k + 6" db] obtain news ks where
        r: "fst (import_lines random resp ls cnt (k + 6) db) = cnt + length news"
          "tbl_users (snd (snd (import_lines random resp ls cnt (k + 6) db))) = tbl_users db @ news"
          "map password news = map (generatePassword random) ks"
          "sorted_wrt (\<lambda>a b. a + 6 \<le> b) ks" "\<forall>x \<in> set ks. k + 6 \<le> x"
          "\<forall>u \<in> set news. length (password u) = 6 \<and> set (password u) \<subseteq> set chars"
        by blast
      from r(5) have "\<forall>x \<in> set ks. k \<le> x" by auto
      with r True Some show ?thesis
        by (intro exI [of _ news] exI [of _ ks]) (simp add: Let_def addUser_def)
    next
      case None
      let ?db = "db\<lparr>tbl_users := tbl_users db @ [?user]\<rparr>"
      from Cons [of "cnt + 1" "k + 6" ?db] obtain news ks where
        r: "fst (import_lines random resp ls (cnt + 1) (k + 6) ?db) = cnt + 1 + length news"
          "tbl_users (snd (snd (import_lines random resp ls (cnt + 1) (k + 6) ?db))) =
             tbl_users ?db @ news"
          "map password news = map (generatePassword random) ks"
          "sorted_wrt (\<lambda>a b. a + 6 \<le> b) ks" "\<forall>x \<in> set ks. k + 6 \<le> x"
          "\<forall>u \<in> set news. length (password u) = 6 \<and> set (password u) \<subseteq> set chars"
        by blast
      from r(5) have ge: "\<forall>x \<in> set ks. k \<le> x" by auto
      have pw: "password ?user = generatePassword random k" by (simp add: user_of_row_def)
      from generatePassword_ok [OF rnd, of k] pw
      have ok: "length (password ?user) = 6 \<and> set (password ?user) \<subseteq> set chars" by simp
      from r ge ok pw True None show ?thesis
        by (intro exI [of _ "?user # news"] exI [of _ "k # ks"]) (simp add: Let_def addUser_def)
    qed
  qed
qed


lemma split_first_line: "lf \<notin> set l0 \<Longrightarrow> split lf (l0 @ lf # rest) = l0 # split lf rest"
  by (induction l0) auto

lemma split_single_line: "lf \<notin> set l0 \<Longrightarrow> split lf l0 = [l0]"
  by (induction l0) auto

lemma nat_toString_0: "nat_toString 0 = ''0''"
  by (subst nat_toString.simps) (simp add: digit_chars_def)

text \<open>
  C10. The first line of the file plays no part: two files that differ only in their
  first line give the same result, and a file of one line provisions nobody. A line that
  splits at commas into fewer than two fields is passed over, the counter, the random
  numbers and the remote staying as they are, so that the file without the line gives the
  same result. The users the import adds are as many as the message reports, and each of
  them has the password of its own \<open>generatePassword()\<close> call, made from six random
  numbers no other call reads: six characters, each a lowercase letter or a digit
  (\<open>Math.random()\<close> being in \<open>[0, 1)\<close>).
\<close>

theorem handleImport_skips_and_passwords:
  assumes rnd: "\<forall>j. 0 \<le> random j \<and> random j < 1"
  shows
   "(lf \<notin> set l0 \<and> lf \<notin> set l0' \<longrightarrow>
       handleImport (l0 @ lf # rest) random resp k db = handleImport (l0' @ lf # rest) random resp k db) \<and>
    (lf \<notin> set l0 \<longrightarrow> handleImport l0 random resp k db = (''Berhasil import 0 user.'', k, db)) \<and>
    (i < length lines \<and> length (split (CHR '','') (lines ! i)) < 2 \<longrightarrow>
       import_loop lines random resp i cnt k db = import_loop lines random resp (i + 1) cnt k db) \<and>
    (lf \<notin> set l0 \<and> lf \<notin> set s \<and> length (split (CHR '','') s) < 2 \<longrightarrow>
       handleImport (l0 @ lf # s @ lf # rest) random resp k db =
       handleImport (l0 @ lf # rest) random resp k db) \<and>
    (\<exists>news ks.
       fst (handleImport text' random resp k db) =
         ''Berhasil import '' @ nat_toString (length news) @ '' user.'' \<and>
       tbl_users (snd (snd (handleImport text' random resp k db))) = tbl_users db @ news \<and>
       map password news = map (generatePassword random) ks \<and>
       sorted_wrt (\<lambda>a b. a + 6 \<le> b) ks \<and> (\<forall>x \<in> set ks. k \<le> x) \<and>
       (\<forall>u \<in> set news. length (password u) = 6 \<and> set (password u) \<subseteq> set chars))"
proof (intro conjI impI)
  assume "lf \<notin> set l0 \<and> lf \<notin> set l0'"
  then show "handleImport (l0 @ lf # rest) random resp k db =
      handleImport (l0' @ lf # rest) random resp k db"
    by (simp add: handleImport_lines split_first_line)
next
  assume "lf \<notin> set l0"
  then show "handleImport l0 random resp k db = (''Berhasil import 0 user.'', k, db)"
    by (simp add: handleImport_lines split_single_line nat_toString_0)
next
  assume "i < length lines \<and> length (split (CHR '','') (lines ! i)) < 2"
  then show "import_loop lines random resp i cnt k db =
      import_loop lines random resp (i + 1) cnt k db"
    by (subst import_loop.simps) (simp add: Let_def)
next
  assume a: "lf \<notin> set l0 \<and> lf \<notin> set s \<and> length (split (CHR '','') s) < 2"
  then have "split lf (l0 @ lf # s @ lf # rest) = l0 # s # split lf rest"
    by (simp add: split_first_line)
  with a show "handleImport (l0 @ lf # s @ lf # rest) random resp k db =
      handleImport (l0 @ lf # rest) random resp k db"
    by (simp add: handleImport_lines split_first_line Let_def)
next
  from import_lines_result [OF rnd, of resp "tl (split lf text')" 0 k db]
  obtain news ks where
    r: "fst (import_lines random resp (tl (split lf text')) 0 k db) = 0 + length news"
      "tbl_users (snd (snd (import_lines random resp (tl (split lf text')) 0 k db))) =
         tbl_users db @ news"
      "map password news = map (generatePassword random) ks"
      "sorted_wrt (\<lambda>a b. a + 6 \<le> b) ks" "\<forall>x \<in> set ks. k \<le> x"
      "\<forall>u \<in> set news. length (password u) = 6 \<and> set (password u) \<subseteq> set chars"
    by blast
  show "\<exists>news ks.
       fst (handleImport text' random resp k db) =
         ''Berhasil import '' @ nat_toString (length news) @ '' user.'' \<and>
       tbl_users (snd (snd (handleImport text' random resp k db))) = tbl_users db @ news \<and>
       map password news = map (generatePassword random) ks \<and>
       sorted_wrt (\<lambda>a b. a + 6 \<le> b) ks \<and> (\<forall>x \<in> set ks. k \<le> x) \<and>
       (\<forall>u \<in> set news. length (password u) = 6 \<and> set (password u) \<subseteq> set chars)"
    using r by (intro exI [of _ news] exI [of _ ks]) (simp add: handleImport_lines case_prod_beta)
qed

lemma generatePassword_sample:
  "generatePassword sample_random 0 = ''abcdef'' \<and> generatePassword sample_random 6 = ''ghijkl''
   \<and> generatePassword sample_random 12 = ''mnopqr''"
  by (simp add: generatePassword_def password_loop.simps sample_random_def charAt_def chars_def)

lemma sample_import:
  "handleImport (''NIP,Nama,Role'' @ lf # sample_rows) sample_random sample_resp 0 sample_db =
    (''Berhasil import 2 user.'', 18,
     sample_db\<lparr>tbl_users :=
       [\<lparr>nip = ''M001'', name = ''Jane'', password = ''k3x9ab'', role = member\<rparr>,
        \<lparr>nip = ''M010'', name = ''Budi'', password = ''abcdef'', role = member\<rparr>,
        \<lparr>nip = ''A002'', name = ''Sari'', password = ''mnopqr'', role = admin\<rparr>]\<rparr>)"
  by (simp add: handleImport_lines sample_rows_def lf_def Let_def user_of_row_def
      generatePassword_sample addUser_def sample_resp_def sample_db_def trim_def is_space_def
      toLowerCase_def lower_char_def nat_toString.simps digit_chars_def)


lemma sample_random_range: "\<forall>j. 0 \<le> sample_random j \<and> sample_random j < 1"
proof
  fix j :: nat
  have "j mod 36 < 36" by simp
  then have "real (j mod 36) < real 36" by (simp only: of_nat_less_iff)
  then have "real (j mod 36) < 36" by simp
  then show "0 \<le> sample_random j \<and> sample_random j < 1" by (simp add: sample_random_def)
qed

theorem handleImport_skips_and_passwords_witness:
  "(\<forall>j. 0 \<le> sample_random j \<and> sample_random j < 1) \<and>
   lf \<notin> set ''M999,Header Person'' \<and> lf \<notin> set ''NIP,Nama,Role'' \<and>
   handleImport (''M999,Header Person'' @ lf # sample_rows) sample_random sample_resp 0 sample_db =
     (''Berhasil import 2 user.'', 18,
      sample_db\<lparr>tbl_users :=
        [\<lparr>nip = ''M001'', name = ''Jane'', password = ''k3x9ab'', role = member\<rparr>,
         \<lparr>nip = ''M010'', name = ''Budi'', password = ''abcdef'', role = member\<rparr>,
         \<lparr>nip = ''A002'', name = ''Sari'', password = ''mnopqr'', role = admin\<rparr>]\<rparr>) \<and>
   handleImport ''M999,Header Person'' sample_random sample_resp 0 sample_db =
     (''Berhasil import 0 user.'', 0, sample_db)"
proof -
  note t = handleImport_skips_and_passwords [OF sample_random_range,
      of "''M999,Header Person''" "''NIP,Nama,Role''" sample_rows sample_resp 0 sample_db]
  have h: "lf \<notin> set ''M999,Header Person'' \<and> lf \<notin> set ''NIP,Nama,Role''"
    by (simp add: lf_def)
  from t [THEN conjunct1, THEN mp, OF h]
  have first: "handleImport (''M999,Header Person'' @ lf # sample_rows) sample_random sample_resp 0
      sample_db = handleImport (''NIP,Nama,Role'' @ lf # sample_rows) sample_random sample_resp 0 sample_db" .
  from h have h1: "lf \<notin> set ''M999,Header Person''" by simp
  from t [THEN conjunct2, THEN conjunct1, THEN mp, OF h1]
  have alone: "handleImport ''M999,Header Person'' sample_random sample_resp 0 sample_db =
     (''Berhasil import 0 user.'', 0, sample_db)" .
  from sample_random_range h first alone show ?thesis by (simp only: sample_import simp_thms)
qed

end
